theory Spec2Isabelle
  imports Main "HOL-Library.Sublist" "HOL-Library.List_Lexorder"
begin

section \<open>Strings\<close>

text \<open>
  A JavaScript string is the sequence of its UTF-16 code units, each a natural number;
  \<open>js\<close> turns a literal of the program text into such a string. Names that only the
  program text supplies (tables, columns, messages of the banner) stay literals.
\<close>

type_synonym code_unit = nat

type_synonym jsstring = "code_unit list"

definition js :: "string \<Rightarrow> jsstring" where
  "js s = map of_char s"

section \<open>Data model\<close>

text \<open>
  The bookmark row of \<^verbatim>\<open>src/app/bookmarks/page.tsx\<close> (interface \<^verbatim>\<open>Bookmark\<close>).
  The field \<^verbatim>\<open>id\<close> is written \<open>id_bm\<close>, since \<open>id\<close> is the identity function of HOL.
  \<^verbatim>\<open>string | null\<close> and \<^verbatim>\<open>boolean | null\<close> are options.
\<close>

record Bookmark =
  id_bm :: jsstring
  url :: jsstring
  title :: jsstring
  description :: "jsstring option"
  is_favorite :: "bool option"
  created_at :: jsstring
  updated_at :: jsstring
  user_id :: jsstring

text \<open>Of the \<^verbatim>\<open>User\<close> object of the session only \<^verbatim>\<open>user.id\<close> is ever read.\<close>

datatype User = User (uid: jsstring)

text \<open>
  The state of \<^verbatim>\<open>BookmarksPage\<close>: one field for each \<^verbatim>\<open>useState\<close> that the
  handlers read or write. The Bookmark Store of the specification is the field \<open>bookmarks\<close>.
\<close>

record page_state =
  bookmarks :: "Bookmark list"
  filteredBookmarks :: "Bookmark list"
  error :: "string option"
  user :: "User option"
  searchQuery :: jsstring
  showFavoritesOnly :: bool

text \<open>The state right after mounting: the initial values given to \<^verbatim>\<open>useState\<close>.\<close>

definition initial_page :: page_state where
  "initial_page =
     \<lparr>bookmarks = [], filteredBookmarks = [], error = None, user = None,
      searchQuery = [], showFavoritesOnly = False\<rparr>"

section \<open>Change subscription\<close>

text \<open>
  A change event: \<^verbatim>\<open>payload.eventType\<close>, \<^verbatim>\<open>payload.new\<close> and \<^verbatim>\<open>payload.old\<close>, the
  two rows as the callback casts them (\<^verbatim>\<open>as Bookmark\<close>).
\<close>

datatype eventType = INSERT | DELETE | UPDATE

record payload =
  eventType :: eventType
  new :: Bookmark
  old :: Bookmark

text \<open>
  The callback registered by \<^verbatim>\<open>setupRealtimeListener\<close> (lines 147 to 178), closed over
  the session's user. Each \<^verbatim>\<open>setBookmarks (prev => ...)\<close> is an update of \<open>bookmarks\<close>;
  an early \<^verbatim>\<open>return\<close> leaves the state as it is.
\<close>

definition on_postgres_changes :: "User \<Rightarrow> payload \<Rightarrow> page_state \<Rightarrow> page_state" where
  "on_postgres_changes session_user p st =
     (let newRow = new p; oldRow = old p in
      if eventType p = INSERT then
        (if user_id newRow \<noteq> uid session_user then st
         else st\<lparr>bookmarks := newRow # bookmarks st\<rparr>)
      else if eventType p = DELETE then
        (if user_id oldRow \<noteq> uid session_user then st
         else st\<lparr>bookmarks := filter (\<lambda>b. id_bm b \<noteq> id_bm oldRow) (bookmarks st)\<rparr>)
      else if eventType p = UPDATE then
        (if user_id newRow \<noteq> uid session_user then st
         else st\<lparr>bookmarks :=
                  map (\<lambda>b. if id_bm b = id_bm newRow then newRow else b) (bookmarks st)\<rparr>)
      else st)"

text \<open>The events of a session, applied in the order of their arrival.\<close>

definition apply_events :: "User \<Rightarrow> payload list \<Rightarrow> page_state \<Rightarrow> page_state" where
  "apply_events session_user ps st = foldl (\<lambda>s p. on_postgres_changes session_user p s) st ps"

section \<open>Requests to the backing store\<close>

text \<open>
  A value of a JavaScript object literal handed to the client library, and the calls the
  handlers make: \<^verbatim>\<open>from(t).select(c).eq(..).order(col, {ascending})\<close>,
  \<^verbatim>\<open>from(t).insert(rows)\<close>, \<^verbatim>\<open>from(t).update(obj).eq(..).eq(..)\<close> and
  \<^verbatim>\<open>from(t).delete().eq(..).eq(..)\<close>. A handler returns the calls it made, in order.
\<close>

datatype jsval = JNull | JStr jsstring | JBool bool

type_synonym jsobject = "(string \<times> jsval) list"

datatype request =
    Select string string "(string \<times> jsstring) list" "string \<times> bool"
  | Insert string "jsobject list"
  | Update string jsobject "(string \<times> jsstring) list"
  | Delete string "(string \<times> jsstring) list"

text \<open>
  The backing store is an external service. Its answer to a select is modelled on a
  table of rows: the rows that satisfy every \<^verbatim>\<open>eq\<close> filter, ordered by
  \<^verbatim>\<open>created_at\<close> (timestamps of one format compare as strings).
\<close>

definition column :: "string \<Rightarrow> Bookmark \<Rightarrow> jsstring option" where
  "column c b =
     (if c = ''id'' then Some (id_bm b)
      else if c = ''url'' then Some (url b)
      else if c = ''title'' then Some (title b)
      else if c = ''description'' then description b
      else if c = ''created_at'' then Some (created_at b)
      else if c = ''updated_at'' then Some (updated_at b)
      else if c = ''user_id'' then Some (user_id b)
      else None)"

definition satisfies :: "(string \<times> jsstring) list \<Rightarrow> Bookmark \<Rightarrow> bool" where
  "satisfies eqs b = list_all (\<lambda>(c, v). column c b = Some v) eqs"

fun run_select :: "Bookmark list \<Rightarrow> request \<Rightarrow> Bookmark list" where
  "run_select table (Select t cols eqs (c, ascending)) =
     (let rows = filter (satisfies eqs) table in
      if c = ''created_at''
      then (if ascending then sort_key created_at rows else rev (sort_key created_at rows))
      else rows)"
| "run_select table _ = []"

text \<open>
  The \<^verbatim>\<open>{ data, error }\<close> of a select: either the error, or the rows.
\<close>

type_synonym select_reply = "Bookmark list option \<times> string option"

definition answer :: "Bookmark list \<Rightarrow> string option \<Rightarrow> request \<Rightarrow> select_reply" where
  "answer table failure q =
     (case failure of Some e \<Rightarrow> (None, Some e) | None \<Rightarrow> (Some (run_select table q), None))"

section \<open>Loading\<close>

text \<open>
  \<^verbatim>\<open>loadBookmarks\<close> (lines 107 to 128). The query it builds depends on the session
  only; the state after the reply of the backing store has come in is \<open>loadBookmarks\<close>.
  \<^verbatim>\<open>getSession\<close> is taken to resolve, with the session given.
\<close>

definition loadBookmarks_query :: "User \<Rightarrow> request" where
  "loadBookmarks_query u =
     Select ''bookmarks'' ''*'' [(''user_id'', uid u)] (''created_at'', False)"

definition loadBookmarks ::
  "User option \<Rightarrow> (request \<Rightarrow> select_reply) \<Rightarrow> page_state \<Rightarrow> page_state \<times> request list"
where
  "loadBookmarks session backend st =
     (case session of
        None \<Rightarrow> (st, [])
      | Some u \<Rightarrow>
          (let q = loadBookmarks_query u; (data, err) = backend q in
           case err of
             Some e \<Rightarrow> (st\<lparr>error := Some ''Failed to load bookmarks''\<rparr>, [q])
           | None \<Rightarrow>
               (st\<lparr>bookmarks := (case data of None \<Rightarrow> [] | Some rows \<Rightarrow> rows),
                   error := None\<rparr>, [q])))"

text \<open>
  \<^verbatim>\<open>checkAuthAndLoadBookmarks\<close> (lines 64 to 84) on the freshly mounted page: without a
  session the visitor is sent to \<^verbatim>\<open>/auth\<close> and nothing is loaded.
\<close>

definition checkAuthAndLoadBookmarks ::
  "User option \<Rightarrow> (request \<Rightarrow> select_reply) \<Rightarrow> page_state \<Rightarrow> page_state \<times> request list"
where
  "checkAuthAndLoadBookmarks session backend st =
     (case session of
        None \<Rightarrow> (st, [])
      | Some u \<Rightarrow> loadBookmarks session backend (st\<lparr>user := Some u\<rparr>))"

text \<open>The row an event is about: the old one for a delete, the new one otherwise.\<close>

definition event_row :: "payload \<Rightarrow> Bookmark" where
  "event_row p = (if eventType p = DELETE then old p else new p)"

definition owned_by :: "User \<Rightarrow> Bookmark list \<Rightarrow> bool" where
  "owned_by u bs = list_all (\<lambda>b. user_id b = uid u) bs"


section \<open>Strings of the platform\<close>

text \<open>
  \<^verbatim>\<open>String.prototype.trim\<close> removes, at both ends, the code points of the productions
  \<^verbatim>\<open>WhiteSpace\<close> and \<^verbatim>\<open>LineTerminator\<close> of ECMAScript: tab, vertical tab, form feed,
  the zero width no-break space and the space separators of Unicode (\<^verbatim>\<open>USP\<close>), and line
  feed, carriage return, line separator and paragraph separator. Each is one code unit.
\<close>

definition USP :: "code_unit list" where
  "USP = [0x0020, 0x00A0, 0x1680, 0x2000, 0x2001, 0x2002, 0x2003, 0x2004, 0x2005, 0x2006,
          0x2007, 0x2008, 0x2009, 0x200A, 0x202F, 0x205F, 0x3000]"

definition WhiteSpace :: "code_unit list" where
  "WhiteSpace = [0x0009, 0x000B, 0x000C, 0xFEFF] @ USP"

definition LineTerminator :: "code_unit list" where
  "LineTerminator = [0x000A, 0x000D, 0x2028, 0x2029]"

definition is_space :: "code_unit \<Rightarrow> bool" where
  "is_space c = (c \<in> set WhiteSpace \<or> c \<in> set LineTerminator)"

definition trim :: "jsstring \<Rightarrow> jsstring" where
  "trim s = rev (dropWhile is_space (rev (dropWhile is_space s)))"



text \<open>A string is falsy exactly when it is empty.\<close>

definition truthy :: "jsstring \<Rightarrow> bool" where
  "truthy s = (s \<noteq> [])"


section \<open>Filtering\<close>




section \<open>Mutation gateway\<close>

text \<open>
  An asynchronous handler either resolves or rejects; the world it runs in is the state
  of the page together with the calls made to the backing store so far. The answer of
  the backing store to a write is the \<^verbatim>\<open>error\<close> of its reply, \<open>None\<close> for \<^verbatim>\<open>null\<close>.
  \<^verbatim>\<open>getSession\<close> is taken to resolve.
\<close>

datatype outcome = Resolved | Rejected string

type_synonym world = "page_state \<times> request list"

definition call :: "request \<Rightarrow> world \<Rightarrow> world" where
  "call q w = (fst w, snd w @ [q])"

definition setError :: "string \<Rightarrow> world \<Rightarrow> world" where
  "setError msg w = ((fst w)\<lparr>error := Some msg\<rparr>, snd w)"

text \<open>
  \<^verbatim>\<open>handleAddBookmark\<close> (lines 183 to 209). A \<^verbatim>\<open>throw err\<close> lands in the
  \<^verbatim>\<open>catch\<close> of the same function, which sets the banner and returns.
\<close>

definition handleAddBookmark ::
  "User option \<Rightarrow> (request \<Rightarrow> string option) \<Rightarrow> jsstring \<Rightarrow> jsstring \<Rightarrow> jsstring \<Rightarrow>
   world \<Rightarrow> outcome \<times> world"
where
  "handleAddBookmark session backend url' title' description' w =
     (case session of
        None \<Rightarrow> (Resolved, w)
      | Some u \<Rightarrow>
          (let q = Insert ''bookmarks''
                     [[(''url'', JStr url'),
                       (''title'', JStr title'),
                       (''description'', if truthy description' then JStr description' else JNull),
                       (''user_id'', JStr (uid u))]]
           in case backend q of
                Some err \<Rightarrow> (Resolved, setError ''Failed to add bookmark'' (call q w))
              | None \<Rightarrow> (Resolved, call q w)))"

text \<open>\<^verbatim>\<open>handleDeleteBookmark\<close> (lines 211 to 226).\<close>

definition handleDeleteBookmark ::
  "(request \<Rightarrow> string option) \<Rightarrow> jsstring \<Rightarrow> world \<Rightarrow> outcome \<times> world"
where
  "handleDeleteBookmark backend id' w =
     (case user (fst w) of
        None \<Rightarrow> (Resolved, w)
      | Some u \<Rightarrow>
          (let q = Delete ''bookmarks'' [(''id'', id'), (''user_id'', uid u)]
           in case backend q of
                Some err \<Rightarrow> (Resolved, setError ''Failed to delete bookmark'' (call q w))
              | None \<Rightarrow> (Resolved, call q w)))"

text \<open>
  \<^verbatim>\<open>handleUpdateBookmark\<close> (lines 228 to 251); \<open>now\<close> is \<^verbatim>\<open>new Date().toISOString()\<close>
  at the time of the call, and \<open>updates\<close> the \<^verbatim>\<open>Pick<Bookmark, "title" | "url" | "description">\<close>.
\<close>

record updates =
  updates_title :: jsstring
  updates_url :: jsstring
  updates_description :: "jsstring option"

definition handleUpdateBookmark ::
  "jsstring \<Rightarrow> (request \<Rightarrow> string option) \<Rightarrow> jsstring \<Rightarrow> updates \<Rightarrow> world \<Rightarrow>
   outcome \<times> world"
where
  "handleUpdateBookmark now backend id' upd w =
     (case user (fst w) of
        None \<Rightarrow> (Resolved, w)
      | Some u \<Rightarrow>
          (let q = Update ''bookmarks''
                     [(''title'', JStr (trim (updates_title upd))),
                      (''url'', JStr (trim (updates_url upd))),
                      (''description'',
                         (case updates_description upd of
                            None \<Rightarrow> JNull
                          | Some d \<Rightarrow> if truthy (trim d) then JStr (trim d) else JNull)),
                      (''updated_at'', JStr now)]
                     [(''id'', id'), (''user_id'', uid u)]
           in case backend q of
                Some err \<Rightarrow> (Resolved, setError ''Failed to update bookmark'' (call q w))
              | None \<Rightarrow> (Resolved, call q w)))"

text \<open>\<^verbatim>\<open>handleToggleFavorite\<close> (lines 253 to 273).\<close>

definition handleToggleFavorite ::
  "jsstring \<Rightarrow> (request \<Rightarrow> string option) \<Rightarrow> jsstring \<Rightarrow> bool \<Rightarrow> world \<Rightarrow>
   outcome \<times> world"
where
  "handleToggleFavorite now backend id' isFavorite w =
     (case user (fst w) of
        None \<Rightarrow> (Resolved, w)
      | Some u \<Rightarrow>
          (let q = Update ''bookmarks''
                     [(''is_favorite'', JBool (\<not> isFavorite)), (''updated_at'', JStr now)]
                     [(''id'', id'), (''user_id'', uid u)]
           in case backend q of
                Some err \<Rightarrow>
                  (Resolved,
                   setError
                     ''Failed to update favorite. Make sure your bookmarks table has an is_favorite column.''
                     (call q w))
              | None \<Rightarrow> (Resolved, call q w)))"


section \<open>The form\<close>

text \<open>
  \<^verbatim>\<open>new URL(s)\<close> and \<^verbatim>\<open>new URL(s, base)\<close> belong to the platform: the constructor is a
  parameter \<open>URL\<close>, which gives \<open>None\<close> where the platform throws a \<^verbatim>\<open>TypeError\<close>.
\<close>

type_synonym 'u URL_constructor = "jsstring \<Rightarrow> jsstring option \<Rightarrow> 'u option"

text \<open>
  The state of \<^verbatim>\<open>BookmarkForm\<close>; its \<^verbatim>\<open>url\<close>, \<^verbatim>\<open>title\<close> and \<^verbatim>\<open>description\<close> carry the
  suffix \<open>_field\<close>, the plain names being the columns of a bookmark.
\<close>

record form_state =
  url_field :: jsstring
  title_field :: jsstring
  description_field :: jsstring
  isLoading :: bool
  urlError :: string
  successMessage :: string

text \<open>\<^verbatim>\<open>validateUrl\<close> (lines 42 to 49).\<close>

definition validateUrl :: "'u URL_constructor \<Rightarrow> jsstring \<Rightarrow> bool" where
  "validateUrl URL urlString = (case URL urlString None of Some _ \<Rightarrow> True | None \<Rightarrow> False)"

text \<open>
  \<^verbatim>\<open>handleSubmit\<close> (lines 51 to 108), for any callback \<^verbatim>\<open>onAddBookmark\<close> acting on a
  world \<open>'w\<close>. The success message starts with the three bytes of U+2728.
\<close>

definition handleSubmit ::
  "'u URL_constructor \<Rightarrow> (jsstring \<Rightarrow> jsstring \<Rightarrow> jsstring \<Rightarrow> 'w \<Rightarrow> outcome \<times> 'w) \<Rightarrow>
   form_state \<times> 'w \<Rightarrow> form_state \<times> 'w"
where
  "handleSubmit URL onAddBookmark fw =
     (let f = (fst fw)\<lparr>urlError := [], successMessage := []\<rparr>; w = snd fw in
      if \<not> truthy (trim (url_field f)) then (f\<lparr>urlError := ''URL is required''\<rparr>, w)
      else if \<not> validateUrl URL (url_field f)
        then (f\<lparr>urlError := ''Please enter a valid URL (e.g., https://example.com)''\<rparr>, w)
      else if \<not> truthy (trim (title_field f)) then (f\<lparr>urlError := ''Title is required''\<rparr>, w)
      else
        (case onAddBookmark (url_field f) (title_field f) (description_field f) w of
           (Resolved, w') \<Rightarrow>
             (f\<lparr>url_field := [], title_field := [], description_field := [],
                successMessage :=
                  [CHR 0xE2, CHR 0x9C, CHR 0xA8] @ '' Bookmark added successfully!'',
                isLoading := False\<rparr>, w')
         | (Rejected e, w') \<Rightarrow>
             (f\<lparr>urlError := ''Failed to save bookmark'', isLoading := False\<rparr>, w')))"

text \<open>Submitting the form on the page: the callback is \<^verbatim>\<open>handleAddBookmark\<close>.\<close>

definition submit_form ::
  "'u URL_constructor \<Rightarrow> User option \<Rightarrow> (request \<Rightarrow> string option) \<Rightarrow>
   form_state \<times> world \<Rightarrow> form_state \<times> world"
where
  "submit_form URL session backend fw = handleSubmit URL (handleAddBookmark session backend) fw"

section \<open>The list\<close>

text \<open>
  The state of \<^verbatim>\<open>BookmarkList\<close> that deleting touches: \<^verbatim>\<open>deleting\<close>, and the inline
  style that \<^verbatim>\<open>gsap.to\<close> leaves on the element of a row, by its \<^verbatim>\<open>data-id\<close> (the end
  values of the tween). A row without inline style is drawn as the style sheet says.
\<close>

record tween =
  opacity :: nat
  x :: int

record list_state =
  deleting :: "jsstring option"
  inline_style :: "jsstring \<rightharpoonup> tween"

text \<open>
  \<^verbatim>\<open>querySelector('[data-id="..."]')\<close> within the container: the rows drawn are those of
  the property \<^verbatim>\<open>bookmarks\<close>, one element for each.
\<close>

definition querySelector :: "Bookmark list \<Rightarrow> jsstring \<Rightarrow> jsstring option" where
  "querySelector shown id' = (if id' \<in> set (map id_bm shown) then Some id' else None)"

definition gsap_to :: "jsstring option \<Rightarrow> tween \<Rightarrow> list_state \<Rightarrow> list_state" where
  "gsap_to ref t l =
     (case ref of None \<Rightarrow> l | Some r \<Rightarrow> l\<lparr>inline_style := (inline_style l)(r \<mapsto> t)\<rparr>)"

text \<open>
  \<^verbatim>\<open>handleDelete\<close> (lines 75 to 104): first the part that runs before the \<^verbatim>\<open>await\<close>,
  then the whole handler for a callback \<^verbatim>\<open>onDeleteBookmark\<close>.
\<close>

definition handleDelete_begin :: "Bookmark list \<Rightarrow> jsstring \<Rightarrow> list_state \<Rightarrow> list_state" where
  "handleDelete_begin shown id' l =
     (let deleteRef = querySelector shown id' in
      (gsap_to deleteRef \<lparr>opacity = 0, x = 100\<rparr> l)\<lparr>deleting := Some id'\<rparr>)"

definition handleDelete ::
  "(jsstring \<Rightarrow> 'w \<Rightarrow> outcome \<times> 'w) \<Rightarrow> Bookmark list \<Rightarrow> jsstring \<Rightarrow>
   list_state \<times> 'w \<Rightarrow> list_state \<times> 'w"
where
  "handleDelete onDeleteBookmark shown id' lw =
     (let deleteRef = querySelector shown id';
          l = handleDelete_begin shown id' (fst lw)
      in case onDeleteBookmark id' (snd lw) of
           (Resolved, w') \<Rightarrow> (l, w')
         | (Rejected e, w') \<Rightarrow>
             (gsap_to deleteRef \<lparr>opacity = 1, x = 0\<rparr> (l\<lparr>deleting := None\<rparr>), w'))"

text \<open>
  Pressing the delete button of a row on the page: the list is given
  \<^verbatim>\<open>filteredBookmarks\<close> and \<^verbatim>\<open>handleDeleteBookmark\<close>.
\<close>

definition press_delete ::
  "(request \<Rightarrow> string option) \<Rightarrow> jsstring \<Rightarrow> list_state \<times> world \<Rightarrow> list_state \<times> world"
where
  "press_delete backend id' lw =
     handleDelete (handleDeleteBookmark backend) (filteredBookmarks (fst (snd lw))) id' lw"

text \<open>The rows a visitor sees: those drawn and not faded out.\<close>

definition displayed :: "list_state \<Rightarrow> Bookmark list \<Rightarrow> Bookmark list" where
  "displayed l shown =
     filter (\<lambda>b. case inline_style l (id_bm b) of None \<Rightarrow> True | Some t \<Rightarrow> opacity t \<noteq> 0) shown"

section \<open>The OAuth callback\<close>

text \<open>
  The route handler \<^verbatim>\<open>GET\<close> (lines 298 to 321 of the callback route). Of the request
  it reads the URL and its query, \<open>searchParams\<close>, whose \<^verbatim>\<open>get\<close> gives the first value of
  a name. \<^verbatim>\<open>exchangeCodeForSession\<close> is a parameter: it resolves or rejects. The request's
  own URL is well formed, and a response is a redirect, unless a \<^verbatim>\<open>TypeError\<close> leaves the
  handler. A code that is \<^verbatim>\<open>null\<close> or empty is falsy: both skip the \<^verbatim>\<open>if (code)\<close> block.
\<close>

record NextRequest =
  request_url :: jsstring
  searchParams :: "(jsstring \<times> jsstring) list"

datatype 'u NextResponse = Redirect 'u | Uncaught

definition redirect :: "'u URL_constructor \<Rightarrow> jsstring \<Rightarrow> NextRequest \<Rightarrow> 'u NextResponse" where
  "redirect URL target request =
     (case URL target (Some (request_url request)) of
        Some u \<Rightarrow> Redirect u
      | None \<Rightarrow> Uncaught)"

text \<open>\<^verbatim>\<open>searchParams.get("next") || "/bookmarks"\<close>.\<close>

definition next_target :: "NextRequest \<Rightarrow> jsstring" where
  "next_target request =
     (case map_of (searchParams request) (js ''next'') of
        None \<Rightarrow> js ''/bookmarks''
      | Some n \<Rightarrow> if truthy n then n else js ''/bookmarks'')"

definition GET ::
  "'u URL_constructor \<Rightarrow> (jsstring \<Rightarrow> outcome) \<Rightarrow> NextRequest \<Rightarrow> 'u NextResponse"
where
  "GET URL exchangeCodeForSession request =
     (let code = map_of (searchParams request) (js ''code'');
          next' = next_target request
      in case code of
           None \<Rightarrow> redirect URL (js ''/auth?error=no_code'') request
         | Some c \<Rightarrow>
             if truthy c then
               (case exchangeCodeForSession c of
                  Resolved \<Rightarrow>
                    (case URL next' (Some (request_url request)) of
                       Some u \<Rightarrow> Redirect u
                     | None \<Rightarrow> redirect URL (js ''/auth?error=auth_failed'') request)
                | Rejected e \<Rightarrow> redirect URL (js ''/auth?error=auth_failed'') request)
             else redirect URL (js ''/auth?error=no_code'') request)"

section \<open>Predicates of the specification\<close>

text \<open>
  White space, as the specification means it when it speaks of trimming: the controls
  from tab to carriage return, the space, the no-break space, the Ogham space mark, the
  spaces from en quad to hair space, the line and paragraph separators, the narrow
  no-break space, the medium mathematical space, the ideographic space and the byte
  order mark. A text is blank when it holds nothing else.
\<close>

definition white_space :: "code_unit \<Rightarrow> bool" where
  "white_space c =
     ((9 \<le> c \<and> c \<le> 13) \<or> c = 32 \<or> c = 160 \<or> c = 5760 \<or> (8192 \<le> c \<and> c \<le> 8202) \<or>
      c = 8232 \<or> c = 8233 \<or> c = 8239 \<or> c = 8287 \<or> c = 12288 \<or> c = 65279)"

definition blank :: "jsstring \<Rightarrow> bool" where
  "blank s = (\<forall>c \<in> set s. white_space c)"

text \<open>\<open>t\<close> is \<open>s\<close> without the white space around it.\<close>

definition trimmed_of :: "jsstring \<Rightarrow> jsstring \<Rightarrow> bool" where
  "trimmed_of t s =
     ((\<exists>before after. s = before @ t @ after \<and> blank before \<and> blank after) \<and>
      (t \<noteq> [] \<longrightarrow> \<not> white_space (hd t) \<and> \<not> white_space (last t)))"

text \<open>
  The handler's one call to the backing store was refused: then the banner shows \<open>msg\<close>
  and the list of the store is as before.
\<close>

definition fails_safely ::
  "(request \<Rightarrow> string option) \<Rightarrow> world \<Rightarrow> outcome \<times> world \<Rightarrow> string \<Rightarrow> bool"
where
  "fails_safely backend w r msg =
     (\<forall>q e. snd (snd r) = snd w @ [q] \<and> backend q = Some e \<longrightarrow>
        error (fst (snd r)) = Some msg \<and> bookmarks (fst (snd r)) = bookmarks (fst w))"





section \<open>Sample data\<close>

definition me :: User where
  "me = User (js ''me'')"

definition sample :: "string \<Rightarrow> string \<Rightarrow> string \<Rightarrow> Bookmark" where
  "sample i owner name =
     \<lparr>id_bm = js i, url = js (''https://example.com/'' @ i), title = js name,
      description = None, is_favorite = None, created_at = js (''2024-01-0'' @ i),
      updated_at = js (''2024-01-0'' @ i), user_id = js owner\<rparr>"

definition sample_table :: "Bookmark list" where
  "sample_table = [sample ''1'' ''me'' ''Docs'', sample ''2'' ''other'' ''Other'', sample ''3'' ''me'' ''News'']"

definition fabricated_insert :: payload where
  "fabricated_insert =
     \<lparr>eventType = INSERT, new = sample ''9'' ''other'' ''Spam'', old = sample ''9'' ''other'' ''Spam''\<rparr>"

definition sample_update :: payload where
  "sample_update =
     \<lparr>eventType = UPDATE, new = sample ''1'' ''me'' ''Manual'', old = sample ''1'' ''me'' ''Docs''\<rparr>"

definition sample_insert :: payload where
  "sample_insert =
     \<lparr>eventType = INSERT, new = sample ''4'' ''me'' ''Blog'', old = sample ''4'' ''me'' ''Blog''\<rparr>"

definition loaded_page :: page_state where
  "loaded_page =
     \<lparr>bookmarks = [sample ''3'' ''me'' ''News'', sample ''1'' ''me'' ''Docs''],
      filteredBookmarks = [sample ''3'' ''me'' ''News'', sample ''1'' ''me'' ''Docs''],
      error = None, user = Some me, searchQuery = [], showFavoritesOnly = False\<rparr>"

definition empty_form :: form_state where
  "empty_form =
     \<lparr>url_field = [], title_field = [], description_field = [], isLoading = False,
      urlError = [], successMessage = []\<rparr>"

definition fresh_list :: list_state where
  "fresh_list = \<lparr>deleting = None, inline_style = Map.empty\<rparr>"

text \<open>A backing store that refuses every write, and one that accepts every write.\<close>

definition refusing :: "request \<Rightarrow> string option" where
  "refusing q = Some ''permission denied''"

definition accepting :: "request \<Rightarrow> string option" where
  "accepting q = None"

text \<open>
  A constructor that keeps a reference and its base as they are: it accepts what starts
  with a scheme and goes on, or with a slash when there is a base, and refuses a scheme
  without a host; and the same after the white space that the platform strips from a
  reference. An exchange that always rejects.
\<close>

definition pair_URL :: "(jsstring \<times> jsstring option) URL_constructor" where
  "pair_URL s base =
     (if s = js ''https://'' \<or> s = js ''http://'' then None
      else if prefix (js ''https://'') s \<or> prefix (js ''http://'') s \<or>
              (prefix (js ''/'') s \<and> base \<noteq> None)
      then Some (s, base) else None)"

definition trimming_URL :: "(jsstring \<times> jsstring option) URL_constructor" where
  "trimming_URL s base = pair_URL (trim s) base"

definition rejecting_exchange :: "jsstring \<Rightarrow> outcome" where
  "rejecting_exchange c = Rejected ''invalid grant''"

definition resolving_exchange :: "jsstring \<Rightarrow> outcome" where
  "resolving_exchange c = Resolved"

text \<open>Requests to the callback: with an empty code, with a code, with a code and a target.\<close>

definition empty_code_request :: NextRequest where
  "empty_code_request =
     \<lparr>request_url = js ''https://app.example/auth/callback?code='',
      searchParams = [(js ''code'', [])]\<rparr>"

definition code_request :: NextRequest where
  "code_request =
     \<lparr>request_url = js ''https://app.example/auth/callback?code=abc'',
      searchParams = [(js ''code'', js ''abc'')]\<rparr>"

definition next_request :: NextRequest where
  "next_request =
     \<lparr>request_url = js ''https://app.example/auth/callback?code=abc&next=/bookmarks?x=1'',
      searchParams = [(js ''code'', js ''abc''), (js ''next'', js ''/bookmarks?x=1'')]\<rparr>"

definition hostless_next_request :: NextRequest where
  "hostless_next_request =
     \<lparr>request_url = js ''https://app.example/auth/callback?code=abc&next=https://'',
      searchParams = [(js ''code'', js ''abc''), (js ''next'', js ''https://'')]\<rparr>"

text \<open>
  Forms and edits with white space: a no-break space (160) before the title and a space
  after it; a title that is one no-break space; a text that is no URL.
\<close>

definition spaced_form :: form_state where
  "spaced_form =
     empty_form\<lparr>url_field := js '' https://example.com '',
                title_field := [160] @ js ''Example'' @ [32],
                description_field := []\<rparr>"

definition nbsp_title_form :: form_state where
  "nbsp_title_form =
     empty_form\<lparr>url_field := js ''https://example.com'', title_field := [160]\<rparr>"

definition bad_url_form :: form_state where
  "bad_url_form = empty_form\<lparr>url_field := js ''not-a-url'', title_field := js ''My Link''\<rparr>"

definition spaced_updates :: updates where
  "spaced_updates =
     \<lparr>updates_title = [160] @ js ''Example'' @ [160],
      updates_url = js '' https://example.com '',
      updates_description = Some [160]\<rparr>"










section \<open>Properties\<close>

subsection \<open>Literals\<close>

lemma js_eq_iff [simp]: "js a = js b \<longleftrightarrow> a = b"
  unfolding js_def by (simp add: inj_map_eq_map inj_on_def)

lemma js_Nil [simp]: "js [] = []"
  by (simp add: js_def)

lemma js_eq_Nil [simp]: "js s = [] \<longleftrightarrow> s = []"
  by (simp add: js_def)

subsection \<open>Ownership of the store\<close>

lemma on_postgres_changes_owned:
  "owned_by u (bookmarks st) \<Longrightarrow> owned_by u (bookmarks (on_postgres_changes u p st))"
  by (auto simp: on_postgres_changes_def owned_by_def list_all_iff Let_def)

lemma apply_events_owned:
  "owned_by u (bookmarks st) \<Longrightarrow> owned_by u (bookmarks (apply_events u ps st))"
  unfolding apply_events_def
  by (induction ps arbitrary: st) (simp_all add: on_postgres_changes_owned)

lemma run_select_owned: "owned_by u (run_select table (loadBookmarks_query u))"
  by (auto simp: loadBookmarks_query_def owned_by_def list_all_iff satisfies_def column_def Let_def)

lemma loadBookmarks_owned:
  "owned_by u (bookmarks st) \<Longrightarrow>
   owned_by u (bookmarks (fst (loadBookmarks (Some u) (answer table failure) st)))"
  by (auto simp: loadBookmarks_def answer_def Let_def run_select_owned split: option.splits)

lemma foreign_event_ignored:
  "user_id (event_row p) \<noteq> uid u \<Longrightarrow> on_postgres_changes u p st = st"
  by (cases "eventType p") (auto simp: on_postgres_changes_def event_row_def Let_def)

text \<open>
  C1. Whatever the table of the backing store holds and whether the load fails or not,
  after mounting with the session of \<open>u\<close> and after any sequence of change events every
  bookmark of the store has the \<open>user_id\<close> of \<open>u\<close>: the load asks for the rows of \<open>u\<close> only,
  and an event (insert, update or delete) about a row of another user leaves the state
  as it is, so a fabricated insert for another user never enters the store.
\<close>

theorem store_ownership:
  "(\<forall>b \<in> set (bookmarks (apply_events u ps
        (fst (checkAuthAndLoadBookmarks (Some u) (answer table failure) initial_page)))).
      user_id b = uid u)
   \<and> snd (checkAuthAndLoadBookmarks (Some u) (answer table failure) initial_page) =
       [Select ''bookmarks'' ''*'' [(''user_id'', uid u)] (''created_at'', False)]
   \<and> (\<forall>p st. user_id (event_row p) \<noteq> uid u \<longrightarrow> on_postgres_changes u p st = st)"
proof -
  have "owned_by u (bookmarks (initial_page\<lparr>user := Some u\<rparr>))"
    by (simp add: initial_page_def owned_by_def)
  then have "owned_by u (bookmarks
      (fst (checkAuthAndLoadBookmarks (Some u) (answer table failure) initial_page)))"
    unfolding checkAuthAndLoadBookmarks_def by (simp add: loadBookmarks_owned)
  then have "owned_by u (bookmarks (apply_events u ps
      (fst (checkAuthAndLoadBookmarks (Some u) (answer table failure) initial_page))))"
    by (rule apply_events_owned)
  moreover have "snd (checkAuthAndLoadBookmarks (Some u) (answer table failure) initial_page) =
       [Select ''bookmarks'' ''*'' [(''user_id'', uid u)] (''created_at'', False)]"
    by (simp add: checkAuthAndLoadBookmarks_def loadBookmarks_def loadBookmarks_query_def
        answer_def Let_def split: option.splits)
  ultimately show ?thesis
    by (simp add: owned_by_def list_all_iff foreign_event_ignored)
qed

theorem store_ownership_witness:
  "bookmarks (apply_events me [fabricated_insert, sample_insert]
      (fst (checkAuthAndLoadBookmarks (Some me) (answer sample_table None) initial_page))) =
     [sample ''4'' ''me'' ''Blog'', sample ''3'' ''me'' ''News'', sample ''1'' ''me'' ''Docs'']
   \<and> map user_id (bookmarks (apply_events me [fabricated_insert, sample_insert]
        (fst (checkAuthAndLoadBookmarks (Some me) (answer sample_table None) initial_page)))) =
       [js ''me'', js ''me'', js ''me'']
   \<and> user_id (event_row fabricated_insert) \<noteq> uid me
   \<and> on_postgres_changes me fabricated_insert loaded_page = loaded_page"
proof -
  have run: "bookmarks (apply_events me [fabricated_insert, sample_insert]
      (fst (checkAuthAndLoadBookmarks (Some me) (answer sample_table None) initial_page))) =
     [sample ''4'' ''me'' ''Blog'', sample ''3'' ''me'' ''News'', sample ''1'' ''me'' ''Docs'']"
    by (simp add: apply_events_def on_postgres_changes_def checkAuthAndLoadBookmarks_def
        loadBookmarks_def loadBookmarks_query_def answer_def satisfies_def column_def
        initial_page_def sample_table_def fabricated_insert_def sample_insert_def sample_def
        me_def js_def)
  have foreign: "user_id (event_row fabricated_insert) \<noteq> uid me"
    by (simp add: event_row_def fabricated_insert_def sample_def me_def)
  show ?thesis
    using store_ownership [of me "[fabricated_insert, sample_insert]" sample_table None]
      run foreign
    by (simp add: me_def sample_def)
qed

subsection \<open>Insert and update events\<close>

text \<open>
  C3. An insert event whose new row has the \<open>user_id\<close> of the session puts that row at
  the head of the list, in front of the previous list; with another \<open>user_id\<close> the state
  stays as it is.
\<close>

theorem apply_insert:
  "eventType p = INSERT \<Longrightarrow>
   on_postgres_changes u p st =
     (if user_id (new p) = uid u then st\<lparr>bookmarks := new p # bookmarks st\<rparr> else st)"
  by (simp add: on_postgres_changes_def Let_def)

theorem apply_insert_witness:
  "eventType sample_insert = INSERT
   \<and> bookmarks (on_postgres_changes me sample_insert loaded_page) =
       sample ''4'' ''me'' ''Blog'' # bookmarks loaded_page
   \<and> eventType fabricated_insert = INSERT
   \<and> on_postgres_changes me fabricated_insert loaded_page = loaded_page"
  using apply_insert [of sample_insert me loaded_page]
    apply_insert [of fabricated_insert me loaded_page]
  by (simp add: sample_insert_def fabricated_insert_def sample_def me_def)

text \<open>
  C4. An update event that passes the ownership guard replaces the entries that have the
  id of the new row by the new row, position by position: the length of the list and every
  other entry stay, and without an entry of that id the whole state stays as it is.
\<close>

theorem apply_update:
  assumes "eventType p = UPDATE" and "user_id (new p) = uid u"
  shows "length (bookmarks (on_postgres_changes u p st)) = length (bookmarks st)
    \<and> (\<forall>i < length (bookmarks st).
         bookmarks (on_postgres_changes u p st) ! i =
           (if id_bm (bookmarks st ! i) = id_bm (new p) then new p else bookmarks st ! i))
    \<and> ((\<forall>b \<in> set (bookmarks st). id_bm b \<noteq> id_bm (new p)) \<longrightarrow>
         on_postgres_changes u p st = st)"
proof -
  have step: "on_postgres_changes u p st =
      st\<lparr>bookmarks := map (\<lambda>b. if id_bm b = id_bm (new p) then new p else b) (bookmarks st)\<rparr>"
    using assms by (simp add: on_postgres_changes_def Let_def)
  have "map (\<lambda>b. if id_bm b = id_bm (new p) then new p else b) (bookmarks st) = bookmarks st"
    if "\<forall>b \<in> set (bookmarks st). id_bm b \<noteq> id_bm (new p)"
    using that by (intro map_idI) simp
  then show ?thesis
    unfolding step by simp
qed

theorem apply_update_witness:
  "eventType sample_update = UPDATE \<and> user_id (new sample_update) = uid me
   \<and> bookmarks (on_postgres_changes me sample_update loaded_page) =
       [sample ''3'' ''me'' ''News'', sample ''1'' ''me'' ''Manual'']"
proof -
  have h1: "eventType sample_update = UPDATE" and h2: "user_id (new sample_update) = uid me"
    by (simp_all add: sample_update_def sample_def me_def)
  have "bookmarks (on_postgres_changes me sample_update loaded_page) =
      [sample ''3'' ''me'' ''News'', sample ''1'' ''me'' ''Manual'']"
    using apply_update [OF h1 h2, of loaded_page]
    by (simp add: list_eq_iff_nth_eq [where ?'a = Bookmark] less_Suc_eq loaded_page_def
        sample_update_def sample_def)
  with h1 h2 show ?thesis by simp
qed

subsection \<open>White space and trimming\<close>

lemma controls_range:
  "9 \<le> c \<and> c \<le> 13 \<longleftrightarrow> c = 9 \<or> c = 10 \<or> c = 11 \<or> c = 12 \<or> c = (13::nat)"
  by arith

lemma spaces_range:
  "8192 \<le> c \<and> c \<le> 8202 \<longleftrightarrow>
   c = 8192 \<or> c = 8193 \<or> c = 8194 \<or> c = 8195 \<or> c = 8196 \<or> c = 8197 \<or> c = 8198 \<or>
   c = 8199 \<or> c = 8200 \<or> c = 8201 \<or> c = (8202::nat)"
  by arith

lemma is_space_iff: "is_space c \<longleftrightarrow> white_space c"
  unfolding is_space_def WhiteSpace_def LineTerminator_def USP_def white_space_def
    controls_range spaces_range
  by (simp only: set_simps append.simps insert_iff empty_iff) (simp, blast)

lemma trim_decompose:
  "s = takeWhile is_space s @ trim s @ rev (takeWhile is_space (rev (dropWhile is_space s)))"
proof -
  let ?m = "dropWhile is_space s"
  have "rev (takeWhile is_space (rev ?m) @ dropWhile is_space (rev ?m)) = ?m"
    by (simp only: takeWhile_dropWhile_id rev_rev_ident)
  then have "rev (dropWhile is_space (rev ?m)) @ rev (takeWhile is_space (rev ?m)) = ?m"
    by (simp only: rev_append)
  then have "takeWhile is_space s @ trim s @ rev (takeWhile is_space (rev ?m)) =
      takeWhile is_space s @ ?m"
    by (simp only: trim_def)
  then show ?thesis
    by (simp only: takeWhile_dropWhile_id)
qed

lemma trim_ends:
  assumes "trim s \<noteq> []"
  shows "\<not> is_space (hd (trim s))" and "\<not> is_space (last (trim s))"
proof -
  let ?m = "dropWhile is_space s"
  let ?r = "dropWhile is_space (rev ?m)"
  from assms have r: "?r \<noteq> []" by (simp add: trim_def)
  then have "\<not> is_space (hd ?r)" by (rule hd_dropWhile)
  with r show "\<not> is_space (last (trim s))"
    by (simp add: trim_def last_rev)
  have m: "?m \<noteq> []"
  proof
    assume e: "?m = []"
    have "?r = []" unfolding e by simp
    with r show False ..
  qed
  then have nm: "\<not> is_space (hd ?m)" by (rule hd_dropWhile)
  have "rev ?r @ rev (takeWhile is_space (rev ?m)) = ?m"
    by (simp only: rev_append [symmetric] takeWhile_dropWhile_id rev_rev_ident)
  then have "?m = trim s @ rev (takeWhile is_space (rev ?m))"
    by (simp only: trim_def)
  with assms have "hd ?m = hd (trim s)"
    by (metis hd_append2)
  with nm show "\<not> is_space (hd (trim s))" by simp
qed

lemma trim_trimmed_of: "trimmed_of (trim s) s"
proof -
  have "blank (takeWhile is_space s)"
    unfolding blank_def by (auto dest: set_takeWhileD simp: is_space_iff)
  moreover have "blank (rev (takeWhile is_space (rev (dropWhile is_space s))))"
    unfolding blank_def by (auto dest: set_takeWhileD simp: is_space_iff)
  ultimately have "\<exists>before after. s = before @ trim s @ after \<and> blank before \<and> blank after"
    using trim_decompose [of s] by blast
  then show ?thesis
    unfolding trimmed_of_def using trim_ends [of s] by (simp add: is_space_iff)
qed

lemma trim_empty_iff: "trim s = [] \<longleftrightarrow> blank s"
proof
  assume "trim s = []"
  with trim_decompose [of s]
  have "s = takeWhile is_space s @ rev (takeWhile is_space (rev (dropWhile is_space s)))"
    by simp
  then have "set s \<subseteq> set (takeWhile is_space s) \<union>
      set (takeWhile is_space (rev (dropWhile is_space s)))"
    by (metis set_append set_rev subset_refl)
  moreover have "\<forall>x \<in> set (takeWhile is_space s). white_space x"
    by (auto dest: set_takeWhileD simp: is_space_iff)
  moreover have "\<forall>x \<in> set (takeWhile is_space (rev (dropWhile is_space s))). white_space x"
    by (auto dest: set_takeWhileD simp: is_space_iff)
  ultimately show "blank s"
    unfolding blank_def by blast
next
  assume "blank s"
  then have d: "dropWhile is_space s = []"
    by (simp add: blank_def is_space_iff)
  show "trim s = []"
    unfolding trim_def d by simp
qed

lemma truthy_trim: "truthy (trim s) \<longleftrightarrow> \<not> blank s"
  by (simp add: truthy_def trim_empty_iff)

subsection \<open>The filter\<close>










subsection \<open>Creating and updating\<close>

lemma handleAddBookmark_cases:
  "handleAddBookmark session backend a b c w = (Resolved, w) \<or>
   (\<exists>rows. snd (handleAddBookmark session backend a b c w) =
      (fst w, snd w @ [Insert ''bookmarks'' rows]) \<or>
      snd (handleAddBookmark session backend a b c w) =
      ((fst w)\<lparr>error := Some ''Failed to add bookmark''\<rparr>, snd w @ [Insert ''bookmarks'' rows]))"
  by (auto simp: handleAddBookmark_def call_def setError_def Let_def split: option.splits)

lemma handleAddBookmark_resolves: "fst (handleAddBookmark session backend a b c w) = Resolved"
  by (auto simp: handleAddBookmark_def Let_def split: option.splits)

lemma submit_form_invalid:
  assumes "\<not> truthy (trim (url_field f)) \<or> \<not> validateUrl URL (url_field f) \<or>
           \<not> truthy (trim (title_field f))"
  shows "urlError (fst (submit_form URL session backend (f, w))) \<noteq> []"
    and "snd (submit_form URL session backend (f, w)) = w"
  using assms by (auto simp: submit_form_def handleSubmit_def Let_def)

lemma submit_form_valid:
  assumes "truthy (trim (url_field f))" "validateUrl URL (url_field f)"
    "truthy (trim (title_field f))"
  shows "snd (submit_form URL session backend (f, w)) =
     snd (handleAddBookmark session backend (url_field f) (title_field f) (description_field f) w)"
  using assms handleAddBookmark_resolves
    [of session backend "url_field f" "title_field f" "description_field f" w]
  by (cases "handleAddBookmark session backend (url_field f) (title_field f)
        (description_field f) w")
     (simp add: submit_form_def handleSubmit_def Let_def)

text \<open>
  C6. When the URL is blank (empty once the white space around it is trimmed), or the
  constructor rejects it, or the title is blank, submitting shows a validation message,
  makes no call to the backing store and leaves the state of the page as it is. A call
  is made only when all three checks pass, and then it is one insert into \<open>bookmarks\<close>.
  The list of the store is the same after every submit.
\<close>

theorem create_validation:
  "(blank (url_field f) \<or> \<not> validateUrl URL (url_field f) \<or> blank (title_field f) \<longrightarrow>
      urlError (fst (submit_form URL session backend (f, w))) \<noteq> [] \<and>
      snd (submit_form URL session backend (f, w)) = w)
   \<and> (snd (snd (submit_form URL session backend (f, w))) \<noteq> snd w \<longrightarrow>
        \<not> blank (url_field f) \<and> validateUrl URL (url_field f) \<and> \<not> blank (title_field f) \<and>
        (\<exists>rows. snd (snd (submit_form URL session backend (f, w))) =
                 snd w @ [Insert ''bookmarks'' rows]))
   \<and> bookmarks (fst (snd (submit_form URL session backend (f, w)))) = bookmarks (fst w)"
proof (cases "\<not> truthy (trim (url_field f)) \<or> \<not> validateUrl URL (url_field f) \<or>
    \<not> truthy (trim (title_field f))")
  case True
  from submit_form_invalid [OF True] show ?thesis
    using True by (simp add: truthy_trim)
next
  case False
  then have ok: "truthy (trim (url_field f))" "validateUrl URL (url_field f)"
    "truthy (trim (title_field f))"
    by simp_all
  show ?thesis
    unfolding submit_form_valid [OF ok]
    using ok handleAddBookmark_cases
      [of session backend "url_field f" "title_field f" "description_field f" w]
    by (auto simp: truthy_trim)
qed

theorem create_validation_witness:
  "\<not> validateUrl trimming_URL (url_field bad_url_form)
   \<and> urlError (fst (submit_form trimming_URL (Some me) accepting (bad_url_form, (loaded_page, []))))
       \<noteq> []
   \<and> snd (submit_form trimming_URL (Some me) accepting (bad_url_form, (loaded_page, []))) =
       (loaded_page, [])
   \<and> blank (title_field nbsp_title_form)
   \<and> urlError (fst (submit_form trimming_URL (Some me) accepting
        (nbsp_title_form, (loaded_page, [])))) = ''Title is required''
   \<and> snd (submit_form trimming_URL (Some me) accepting (nbsp_title_form, (loaded_page, []))) =
       (loaded_page, [])
   \<and> snd (snd (submit_form trimming_URL (Some me) accepting (spaced_form, (loaded_page, []))))
       \<noteq> snd (loaded_page, [])
   \<and> validateUrl trimming_URL (url_field spaced_form)"
proof -
  note B = create_validation [of bad_url_form trimming_URL "Some me" accepting "(loaded_page, [])"]
  note N = create_validation
    [of nbsp_title_form trimming_URL "Some me" accepting "(loaded_page, [])"]
  note G = create_validation [of spaced_form trimming_URL "Some me" accepting "(loaded_page, [])"]
  have bad: "\<not> validateUrl trimming_URL (url_field bad_url_form)"
    by (simp add: validateUrl_def trimming_URL_def pair_URL_def bad_url_form_def empty_form_def
        trim_def is_space_def WhiteSpace_def USP_def LineTerminator_def js_def)
  have nb: "blank (title_field nbsp_title_form)"
    by (simp add: nbsp_title_form_def empty_form_def blank_def white_space_def)
  have msg: "urlError (fst (submit_form trimming_URL (Some me) accepting
        (nbsp_title_form, (loaded_page, [])))) = ''Title is required''"
    by (simp add: submit_form_def handleSubmit_def validateUrl_def trimming_URL_def pair_URL_def
        nbsp_title_form_def empty_form_def trim_def is_space_def WhiteSpace_def USP_def
        LineTerminator_def truthy_def js_def Let_def)
  have issued:
    "snd (snd (submit_form trimming_URL (Some me) accepting (spaced_form, (loaded_page, []))))
       \<noteq> snd (loaded_page, [])"
    by (simp add: submit_form_def handleSubmit_def handleAddBookmark_def call_def accepting_def
        validateUrl_def trimming_URL_def pair_URL_def spaced_form_def empty_form_def trim_def
        is_space_def WhiteSpace_def USP_def LineTerminator_def truthy_def js_def Let_def)
  have b: "urlError (fst (submit_form trimming_URL (Some me) accepting
               (bad_url_form, (loaded_page, [])))) \<noteq> [] \<and>
           snd (submit_form trimming_URL (Some me) accepting (bad_url_form, (loaded_page, []))) =
             (loaded_page, [])"
    by (rule B [THEN conjunct1, THEN mp]) (rule disjI2, rule disjI1, rule bad)
  have n: "urlError (fst (submit_form trimming_URL (Some me) accepting
               (nbsp_title_form, (loaded_page, [])))) \<noteq> [] \<and>
           snd (submit_form trimming_URL (Some me) accepting
               (nbsp_title_form, (loaded_page, []))) = (loaded_page, [])"
    by (rule N [THEN conjunct1, THEN mp]) (rule disjI2, rule disjI2, rule nb)
  have g: "validateUrl trimming_URL (url_field spaced_form)"
    using G [THEN conjunct2, THEN conjunct1, THEN mp, OF issued] by (elim conjE)
  from bad b nb msg n issued g show ?thesis
    by (elim conjE) (intro conjI)
qed

text \<open>
  C10. With a session, a submit that passes the checks makes one insert whose row carries
  the URL and the title exactly as typed, white space included, the description (or null
  when it is empty) and the \<open>user_id\<close> of the session. An update of the same texts writes
  them trimmed, that is, without the white space around them.
\<close>

theorem create_payload:
  assumes "\<not> blank (url_field f)" and "validateUrl URL (url_field f)"
    and "\<not> blank (title_field f)"
  shows "snd (snd (submit_form URL (Some u) backend (f, w))) =
     snd w @ [Insert ''bookmarks''
       [[(''url'', JStr (url_field f)),
         (''title'', JStr (title_field f)),
         (''description'',
            if description_field f = [] then JNull else JStr (description_field f)),
         (''user_id'', JStr (uid u))]]]
   \<and> (\<forall>now i d v. user (fst w) = Some v \<longrightarrow>
         snd (snd (handleUpdateBookmark now backend i
            \<lparr>updates_title = title_field f, updates_url = url_field f,
             updates_description = d\<rparr> w)) =
         snd w @ [Update ''bookmarks''
           [(''title'', JStr (trim (title_field f))),
            (''url'', JStr (trim (url_field f))),
            (''description'',
               (case d of None \<Rightarrow> JNull | Some e \<Rightarrow> if trim e = [] then JNull else JStr (trim e))),
            (''updated_at'', JStr now)]
           [(''id'', i), (''user_id'', uid v)]])
   \<and> trimmed_of (trim (title_field f)) (title_field f)
   \<and> trimmed_of (trim (url_field f)) (url_field f)"
proof -
  from assms have ok: "truthy (trim (url_field f))" "validateUrl URL (url_field f)"
    "truthy (trim (title_field f))"
    by (simp_all add: truthy_trim)
  have "snd (snd (submit_form URL (Some u) backend (f, w))) =
     snd w @ [Insert ''bookmarks''
       [[(''url'', JStr (url_field f)),
         (''title'', JStr (title_field f)),
         (''description'',
            if description_field f = [] then JNull else JStr (description_field f)),
         (''user_id'', JStr (uid u))]]]"
    unfolding submit_form_valid [OF ok]
    by (simp add: handleAddBookmark_def call_def setError_def truthy_def Let_def
        split: option.splits)
  then show ?thesis
    by (simp add: handleUpdateBookmark_def call_def setError_def truthy_def Let_def
        trim_trimmed_of split: option.splits)
qed

theorem create_payload_witness:
  "\<not> blank (url_field spaced_form) \<and> validateUrl trimming_URL (url_field spaced_form)
   \<and> \<not> blank (title_field spaced_form)
   \<and> snd (snd (submit_form trimming_URL (Some me) accepting (spaced_form, (loaded_page, [])))) =
       [Insert ''bookmarks''
         [[(''url'', JStr (js '' https://example.com '')),
           (''title'', JStr ([160] @ js ''Example'' @ [32])),
           (''description'', JNull), (''user_id'', JStr (js ''me''))]]]
   \<and> snd (snd (handleUpdateBookmark (js ''2024-02-01T00:00:00.000Z'') accepting (js ''1'')
        \<lparr>updates_title = title_field spaced_form, updates_url = url_field spaced_form,
         updates_description = None\<rparr> (loaded_page, []))) =
       [Update ''bookmarks''
         [(''title'', JStr (js ''Example'')), (''url'', JStr (js ''https://example.com'')),
          (''description'', JNull), (''updated_at'', JStr (js ''2024-02-01T00:00:00.000Z''))]
         [(''id'', js ''1''), (''user_id'', js ''me'')]]"
proof -
  have h1: "\<not> blank (url_field spaced_form)"
    and h3: "\<not> blank (title_field spaced_form)"
    by (simp_all add: spaced_form_def empty_form_def blank_def white_space_def js_def)
  have h2: "validateUrl trimming_URL (url_field spaced_form)"
    by (simp add: validateUrl_def trimming_URL_def pair_URL_def spaced_form_def empty_form_def
        trim_def is_space_def WhiteSpace_def USP_def LineTerminator_def js_def)
  note P = create_payload [OF h1 h2 h3, of me accepting "(loaded_page, [])"]
  have t: "trim (title_field spaced_form) = js ''Example''"
    "trim (url_field spaced_form) = js ''https://example.com''"
    by (simp_all add: spaced_form_def empty_form_def trim_def is_space_def WhiteSpace_def
        USP_def LineTerminator_def js_def)
  have u: "user (fst (loaded_page, [] :: request list)) = Some me"
    by (simp add: loaded_page_def)
  have ins: "snd (snd (submit_form trimming_URL (Some me) accepting
        (spaced_form, (loaded_page, [])))) =
       [Insert ''bookmarks''
         [[(''url'', JStr (js '' https://example.com '')),
           (''title'', JStr ([160] @ js ''Example'' @ [32])),
           (''description'', JNull), (''user_id'', JStr (js ''me''))]]]"
    unfolding P [THEN conjunct1] by (simp add: spaced_form_def empty_form_def me_def)
  have upd: "snd (snd (handleUpdateBookmark (js ''2024-02-01T00:00:00.000Z'') accepting (js ''1'')
        \<lparr>updates_title = title_field spaced_form, updates_url = url_field spaced_form,
         updates_description = None\<rparr> (loaded_page, []))) =
       [Update ''bookmarks''
         [(''title'', JStr (js ''Example'')), (''url'', JStr (js ''https://example.com'')),
          (''description'', JNull), (''updated_at'', JStr (js ''2024-02-01T00:00:00.000Z''))]
         [(''id'', js ''1''), (''user_id'', js ''me'')]]"
    unfolding P [THEN conjunct2, THEN conjunct1, THEN spec, THEN spec, THEN spec, THEN spec,
        THEN mp, OF u] t
    by (simp add: me_def)
  from h1 h2 h3 ins upd show ?thesis by (intro conjI)
qed

text \<open>
  C7. With a signed-in user, an update makes one call: it writes the trimmed title, the
  trimmed URL, the trimmed description (null when none is given or nothing is left of it)
  and the time of the call as \<open>updated_at\<close>, to the rows whose \<open>id\<close> is the given one and
  whose \<open>user_id\<close> is the user's. What \<open>trim\<close> returns is its argument without the white
  space around it.
\<close>

theorem update_payload:
  assumes "user (fst w) = Some u"
  shows "snd (snd (handleUpdateBookmark now backend id' upd w)) =
     snd w @ [Update ''bookmarks''
       [(''title'', JStr (trim (updates_title upd))),
        (''url'', JStr (trim (updates_url upd))),
        (''description'',
           (case updates_description upd of
              None \<Rightarrow> JNull
            | Some d \<Rightarrow> if trim d = [] then JNull else JStr (trim d))),
        (''updated_at'', JStr now)]
       [(''id'', id'), (''user_id'', uid u)]]
   \<and> (\<forall>s. trimmed_of (trim s) s)"
  using assms
  by (simp add: handleUpdateBookmark_def call_def setError_def truthy_def Let_def
      trim_trimmed_of split: option.splits)

theorem update_payload_witness:
  "user loaded_page = Some me
   \<and> snd (snd (handleUpdateBookmark (js ''2024-02-01T00:00:00.000Z'') refusing (js ''1'')
        spaced_updates (loaded_page, []))) =
       [Update ''bookmarks''
         [(''title'', JStr (js ''Example'')), (''url'', JStr (js ''https://example.com'')),
          (''description'', JNull), (''updated_at'', JStr (js ''2024-02-01T00:00:00.000Z''))]
         [(''id'', js ''1''), (''user_id'', js ''me'')]]
   \<and> trimmed_of (js ''Example'') ([160] @ js ''Example'' @ [160])"
proof -
  have h: "user (fst (loaded_page, [] :: request list)) = Some me"
    by (simp add: loaded_page_def)
  then have h': "user loaded_page = Some me"
    by simp
  have t: "trim (updates_title spaced_updates) = js ''Example''"
    "trim (updates_url spaced_updates) = js ''https://example.com''"
    "updates_description spaced_updates = Some [160]" "trim [160] = []"
    by (simp_all add: spaced_updates_def trim_def is_space_def WhiteSpace_def USP_def
        LineTerminator_def js_def)
  have t': "updates_title spaced_updates = [160] @ js ''Example'' @ [160]"
    by (simp add: spaced_updates_def)
  note U = update_payload [OF h, of "js ''2024-02-01T00:00:00.000Z''" refusing "js ''1''"
      spaced_updates]
  have a: "snd (snd (handleUpdateBookmark (js ''2024-02-01T00:00:00.000Z'') refusing (js ''1'')
        spaced_updates (loaded_page, []))) =
       [Update ''bookmarks''
         [(''title'', JStr (js ''Example'')), (''url'', JStr (js ''https://example.com'')),
          (''description'', JNull), (''updated_at'', JStr (js ''2024-02-01T00:00:00.000Z''))]
         [(''id'', js ''1''), (''user_id'', js ''me'')]]"
    unfolding U [THEN conjunct1] t by (simp add: me_def t)
  have "trimmed_of (trim (updates_title spaced_updates)) (updates_title spaced_updates)"
    using U [THEN conjunct2] by (rule spec)
  then have b: "trimmed_of (js ''Example'') ([160] @ js ''Example'' @ [160])"
    unfolding t unfolding t' .
  from h' a b show ?thesis by (intro conjI)
qed

subsection \<open>Failures of the backing store\<close>

text \<open>
  C8. For each of the four operations of the page (create, delete, update, toggle of the
  favourite): when the call it made was refused by the backing store, the banner names
  the operation that failed and the list of the store is as it was before.
\<close>

theorem failure_banner:
  "fails_safely backend w (handleAddBookmark session backend a b c w) ''Failed to add bookmark''
   \<and> fails_safely backend w (handleDeleteBookmark backend i w) ''Failed to delete bookmark''
   \<and> fails_safely backend w (handleUpdateBookmark now backend i upd w)
        ''Failed to update bookmark''
   \<and> fails_safely backend w (handleToggleFavorite now backend i fav w)
        ''Failed to update favorite. Make sure your bookmarks table has an is_favorite column.''"
proof (intro conjI)
  show "fails_safely backend w (handleAddBookmark session backend a b c w)
      ''Failed to add bookmark''"
    by (auto simp: fails_safely_def handleAddBookmark_def call_def setError_def Let_def
        split: option.splits)
  show "fails_safely backend w (handleDeleteBookmark backend i w) ''Failed to delete bookmark''"
    by (auto simp: fails_safely_def handleDeleteBookmark_def call_def setError_def Let_def
        split: option.splits)
  show "fails_safely backend w (handleUpdateBookmark now backend i upd w)
      ''Failed to update bookmark''"
    by (auto simp: fails_safely_def handleUpdateBookmark_def call_def setError_def Let_def
        split: option.splits)
  show "fails_safely backend w (handleToggleFavorite now backend i fav w)
      ''Failed to update favorite. Make sure your bookmarks table has an is_favorite column.''"
    by (auto simp: fails_safely_def handleToggleFavorite_def call_def setError_def Let_def
        split: option.splits)
qed

theorem failure_banner_witness:
  "error (fst (snd (handleAddBookmark (Some me) refusing (js ''https://example.com'') (js ''Example'') []
      (loaded_page, [])))) = Some ''Failed to add bookmark''
   \<and> bookmarks (fst (snd (handleAddBookmark (Some me) refusing (js ''https://example.com'') (js ''Example'') []
      (loaded_page, [])))) = bookmarks loaded_page
   \<and> error (fst (snd (handleDeleteBookmark refusing (js ''1'') (loaded_page, [])))) =
       Some ''Failed to delete bookmark''
   \<and> bookmarks (fst (snd (handleDeleteBookmark refusing (js ''1'') (loaded_page, [])))) =
       bookmarks loaded_page
   \<and> error (fst (snd (handleUpdateBookmark (js ''2024-02-01'') refusing (js ''1'') spaced_updates
        (loaded_page, [])))) = Some ''Failed to update bookmark''
   \<and> error (fst (snd (handleToggleFavorite (js ''2024-02-01'') refusing (js ''1'') False
        (loaded_page, [])))) =
       Some ''Failed to update favorite. Make sure your bookmarks table has an is_favorite column.''"
proof -
  note F = failure_banner [where backend = refusing and w = "(loaded_page, [])"
      and session = "Some me" and a = "js ''https://example.com''" and b = "js ''Example''"
      and c = "[]" and i = "js ''1''" and now = "js ''2024-02-01''" and upd = spaced_updates
      and fav = False, unfolded fails_safely_def]
  have r: "refusing q = Some ''permission denied''" for q
    by (simp add: refusing_def)
  have u: "user loaded_page = Some me"
    by (simp add: loaded_page_def)
  have tr_add: "snd (snd (handleAddBookmark (Some me) refusing (js ''https://example.com'') (js ''Example'') []
      (loaded_page, []))) = snd (loaded_page, []) @
      [Insert ''bookmarks'' [[(''url'', JStr (js ''https://example.com'')), (''title'', JStr (js ''Example'')),
         (''description'', JNull), (''user_id'', JStr (js ''me''))]]]"
    by (simp add: handleAddBookmark_def call_def setError_def r truthy_def me_def)
  have add: "error (fst (snd (handleAddBookmark (Some me) refusing (js ''https://example.com'')
        (js ''Example'') [] (loaded_page, [])))) = Some ''Failed to add bookmark'' \<and>
      bookmarks (fst (snd (handleAddBookmark (Some me) refusing (js ''https://example.com'')
        (js ''Example'') [] (loaded_page, [])))) = bookmarks loaded_page"
    using F [THEN conjunct1, THEN spec, THEN spec, THEN mp, OF conjI, OF tr_add r] by simp
  have tr_del: "snd (snd (handleDeleteBookmark refusing (js ''1'') (loaded_page, []))) =
      snd (loaded_page, []) @ [Delete ''bookmarks'' [(''id'', js ''1''), (''user_id'', js ''me'')]]"
    by (simp add: handleDeleteBookmark_def call_def setError_def r u me_def)
  have del: "error (fst (snd (handleDeleteBookmark refusing (js ''1'') (loaded_page, [])))) =
        Some ''Failed to delete bookmark'' \<and>
      bookmarks (fst (snd (handleDeleteBookmark refusing (js ''1'') (loaded_page, [])))) =
        bookmarks loaded_page"
    using F [THEN conjunct2, THEN conjunct1, THEN spec, THEN spec, THEN mp, OF conjI, OF tr_del r]
    by simp
  have tr_upd: "snd (snd (handleUpdateBookmark (js ''2024-02-01'') refusing (js ''1'') spaced_updates
        (loaded_page, []))) =
      snd (loaded_page, []) @ [Update ''bookmarks''
         [(''title'', JStr (js ''Example'')), (''url'', JStr (js ''https://example.com'')),
          (''description'', JNull), (''updated_at'', JStr (js ''2024-02-01''))]
         [(''id'', js ''1''), (''user_id'', js ''me'')]]"
    by (simp add: handleUpdateBookmark_def call_def setError_def r u me_def spaced_updates_def
        trim_def is_space_def WhiteSpace_def USP_def LineTerminator_def truthy_def js_def)
  have upd: "error (fst (snd (handleUpdateBookmark (js ''2024-02-01'') refusing (js ''1'')
        spaced_updates (loaded_page, [])))) = Some ''Failed to update bookmark'' \<and>
      bookmarks (fst (snd (handleUpdateBookmark (js ''2024-02-01'') refusing (js ''1'')
        spaced_updates (loaded_page, [])))) = bookmarks loaded_page"
    using F [THEN conjunct2, THEN conjunct2, THEN conjunct1, THEN spec, THEN spec, THEN mp,
        OF conjI, OF tr_upd r]
    by simp
  have tr_tog: "snd (snd (handleToggleFavorite (js ''2024-02-01'') refusing (js ''1'') False (loaded_page, []))) =
      snd (loaded_page, []) @ [Update ''bookmarks''
         [(''is_favorite'', JBool True), (''updated_at'', JStr (js ''2024-02-01''))]
         [(''id'', js ''1''), (''user_id'', js ''me'')]]"
    by (simp add: handleToggleFavorite_def call_def setError_def r u me_def)
  have tog: "error (fst (snd (handleToggleFavorite (js ''2024-02-01'') refusing (js ''1'') False
        (loaded_page, [])))) =
        Some ''Failed to update favorite. Make sure your bookmarks table has an is_favorite column.'' \<and>
      bookmarks (fst (snd (handleToggleFavorite (js ''2024-02-01'') refusing (js ''1'') False
        (loaded_page, [])))) = bookmarks loaded_page"
    using F [THEN conjunct2, THEN conjunct2, THEN conjunct2, THEN spec, THEN spec, THEN mp,
        OF conjI, OF tr_tog r]
    by simp
  from add del upd tog show ?thesis
    by (elim conjE) (intro conjI)
qed

subsection \<open>Deleting\<close>

lemma handleDeleteBookmark_resolves: "fst (handleDeleteBookmark backend i w) = Resolved"
  by (auto simp: handleDeleteBookmark_def Let_def split: option.splits)

lemma press_delete_never_restores:
  "fst (press_delete backend i (l, w)) = handleDelete_begin (filteredBookmarks (fst w)) i l"
  using handleDeleteBookmark_resolves [of backend i w]
  by (cases "handleDeleteBookmark backend i w")
     (simp add: press_delete_def handleDelete_def Let_def)

lemma handleDelete_begin_hides:
  "i \<in> set (map id_bm shown) \<Longrightarrow>
   displayed (handleDelete_begin shown i l) shown = filter (\<lambda>b. id_bm b \<noteq> i) (displayed l shown)"
  by (auto simp: handleDelete_begin_def querySelector_def gsap_to_def displayed_def Let_def
      intro!: filter_cong)

text \<open>
  C2, at the input where the code parts from it. The two rows of the list are on display;
  the delete button of row 1 is pressed and the backing store refuses the delete.
  \<^verbatim>\<open>handleDeleteBookmark\<close> catches the error itself, shows the banner and resolves, so the
  \<^verbatim>\<open>catch\<close> of \<^verbatim>\<open>handleDelete\<close> that would fade the row in again does not run: the row
  is still in the store and in the list handed down, yet it stays faded out and marked
  as being deleted.
\<close>

theorem delete_refused_row_stays_hidden:
  "displayed fresh_list (filteredBookmarks loaded_page) =
     [sample ''3'' ''me'' ''News'', sample ''1'' ''me'' ''Docs'']
   \<and> snd (snd (press_delete refusing (js ''1'') (fresh_list, (loaded_page, [])))) =
       [Delete ''bookmarks'' [(''id'', js ''1''), (''user_id'', js ''me'')]]
   \<and> error (fst (snd (press_delete refusing (js ''1'') (fresh_list, (loaded_page, []))))) =
       Some ''Failed to delete bookmark''
   \<and> bookmarks (fst (snd (press_delete refusing (js ''1'') (fresh_list, (loaded_page, []))))) =
       [sample ''3'' ''me'' ''News'', sample ''1'' ''me'' ''Docs'']
   \<and> deleting (fst (press_delete refusing (js ''1'') (fresh_list, (loaded_page, [])))) = Some (js ''1'')
   \<and> displayed (fst (press_delete refusing (js ''1'') (fresh_list, (loaded_page, []))))
        (filteredBookmarks (fst (snd (press_delete refusing (js ''1'') (fresh_list, (loaded_page, [])))))) =
       [sample ''3'' ''me'' ''News'']"
  by (simp add: press_delete_def handleDelete_def handleDelete_begin_def handleDeleteBookmark_def
      querySelector_def gsap_to_def displayed_def call_def setError_def refusing_def
      fresh_list_def loaded_page_def sample_def me_def Let_def)

subsection \<open>The OAuth callback\<close>

text \<open>
  C9, as the code has it. A request without a code, or with an empty one, is redirected
  to \<^verbatim>\<open>/auth?error=no_code\<close>. With a code that is not empty: when the exchange rejects,
  the redirect goes to \<^verbatim>\<open>/auth?error=auth_failed\<close>; when it resolves and the target
  resolves against the URL of the request, the redirect goes to that target, which is the
  \<^verbatim>\<open>next\<close> of the request, or \<^verbatim>\<open>/bookmarks\<close> when there is none or it is empty.
\<close>

theorem oauth_callback:
  "(map_of (searchParams request) (js ''code'') = None \<or>
    map_of (searchParams request) (js ''code'') = Some [] \<longrightarrow>
      GET URL exchange request = redirect URL (js ''/auth?error=no_code'') request)
   \<and> (\<forall>c e. map_of (searchParams request) (js ''code'') = Some c \<and> c \<noteq> [] \<and>
          exchange c = Rejected e \<longrightarrow>
        GET URL exchange request = redirect URL (js ''/auth?error=auth_failed'') request)
   \<and> (\<forall>c u. map_of (searchParams request) (js ''code'') = Some c \<and> c \<noteq> [] \<and>
          exchange c = Resolved \<and>
          URL (next_target request) (Some (request_url request)) = Some u \<longrightarrow>
        GET URL exchange request = Redirect u)
   \<and> (map_of (searchParams request) (js ''next'') = None \<or>
       map_of (searchParams request) (js ''next'') = Some [] \<longrightarrow>
        next_target request = js ''/bookmarks'')
   \<and> (\<forall>n. map_of (searchParams request) (js ''next'') = Some n \<and> n \<noteq> [] \<longrightarrow>
        next_target request = n)"
  by (auto simp: GET_def next_target_def truthy_def Let_def)

theorem oauth_callback_witness:
  "GET pair_URL rejecting_exchange empty_code_request =
     Redirect (js ''/auth?error=no_code'', Some (js ''https://app.example/auth/callback?code=''))
   \<and> GET pair_URL rejecting_exchange code_request =
     Redirect (js ''/auth?error=auth_failed'', Some (js ''https://app.example/auth/callback?code=abc''))
   \<and> GET pair_URL resolving_exchange code_request =
     Redirect (js ''/bookmarks'', Some (js ''https://app.example/auth/callback?code=abc''))
   \<and> GET pair_URL resolving_exchange next_request =
     Redirect (js ''/bookmarks?x=1'', Some (js ''https://app.example/auth/callback?code=abc&next=/bookmarks?x=1''))"
proof -
  note E = oauth_callback [of empty_code_request pair_URL rejecting_exchange]
  note R = oauth_callback [of code_request pair_URL rejecting_exchange]
  note C = oauth_callback [of code_request pair_URL resolving_exchange]
  note N = oauth_callback [of next_request pair_URL resolving_exchange]
  have e: "map_of (searchParams empty_code_request) (js ''code'') = Some []"
    by (simp add: empty_code_request_def)
  have c: "map_of (searchParams code_request) (js ''code'') = Some (js ''abc'')"
    "map_of (searchParams code_request) (js ''next'') = None"
    by (simp_all add: code_request_def)
  have n: "map_of (searchParams next_request) (js ''code'') = Some (js ''abc'')"
    "map_of (searchParams next_request) (js ''next'') = Some (js ''/bookmarks?x=1'')"
    by (simp_all add: next_request_def)
  have "GET pair_URL rejecting_exchange empty_code_request =
      redirect pair_URL (js ''/auth?error=no_code'') empty_code_request"
    by (rule E [THEN conjunct1, THEN mp]) (rule disjI2, rule e)
  then have 1: "GET pair_URL rejecting_exchange empty_code_request =
     Redirect (js ''/auth?error=no_code'', Some (js ''https://app.example/auth/callback?code=''))"
    by (simp add: redirect_def pair_URL_def empty_code_request_def js_def)
  have "GET pair_URL rejecting_exchange code_request =
      redirect pair_URL (js ''/auth?error=auth_failed'') code_request"
    by (rule R [THEN conjunct2, THEN conjunct1, THEN spec, THEN spec, THEN mp],
        intro conjI, rule c(1), simp, rule rejecting_exchange_def)
  then have 2: "GET pair_URL rejecting_exchange code_request =
     Redirect (js ''/auth?error=auth_failed'', Some (js ''https://app.example/auth/callback?code=abc''))"
    by (simp add: redirect_def pair_URL_def code_request_def js_def)
  have tc: "next_target code_request = js ''/bookmarks''"
    by (rule C [THEN conjunct2, THEN conjunct2, THEN conjunct2, THEN conjunct1, THEN mp])
       (rule disjI1, rule c)
  have pc: "pair_URL (next_target code_request) (Some (request_url code_request)) =
      Some (js ''/bookmarks'', Some (js ''https://app.example/auth/callback?code=abc''))"
    unfolding tc by (simp add: pair_URL_def code_request_def js_def)
  have 3: "GET pair_URL resolving_exchange code_request =
     Redirect (js ''/bookmarks'', Some (js ''https://app.example/auth/callback?code=abc''))"
    by (rule C [THEN conjunct2, THEN conjunct2, THEN conjunct1, THEN spec, THEN spec, THEN mp],
        intro conjI, rule c(1), simp, rule resolving_exchange_def, rule pc)
  have tn: "next_target next_request = js ''/bookmarks?x=1''"
    by (rule N [THEN conjunct2, THEN conjunct2, THEN conjunct2, THEN conjunct2, THEN spec, THEN mp],
        intro conjI, rule n(2), simp)
  have pn: "pair_URL (next_target next_request) (Some (request_url next_request)) =
      Some (js ''/bookmarks?x=1'', Some (js ''https://app.example/auth/callback?code=abc&next=/bookmarks?x=1''))"
    unfolding tn by (simp add: pair_URL_def next_request_def js_def)
  have 4: "GET pair_URL resolving_exchange next_request =
     Redirect (js ''/bookmarks?x=1'', Some (js ''https://app.example/auth/callback?code=abc&next=/bookmarks?x=1''))"
    by (rule N [THEN conjunct2, THEN conjunct2, THEN conjunct1, THEN spec, THEN spec, THEN mp],
        intro conjI, rule n(1), simp, rule resolving_exchange_def, rule pn)
  from 1 2 3 4 show ?thesis by (intro conjI)
qed

text \<open>
  The request \<^verbatim>\<open>/auth/callback?code=\<close> carries a code parameter, and the exchange would
  reject: all the same the redirect goes to \<^verbatim>\<open>no_code\<close>, not to \<^verbatim>\<open>auth_failed\<close>.
\<close>

theorem oauth_callback_empty_code:
  "map_of (searchParams empty_code_request) (js ''code'') \<noteq> None
   \<and> rejecting_exchange (the (map_of (searchParams empty_code_request) (js ''code''))) =
       Rejected ''invalid grant''
   \<and> GET pair_URL rejecting_exchange empty_code_request =
       redirect pair_URL (js ''/auth?error=no_code'') empty_code_request
   \<and> GET pair_URL rejecting_exchange empty_code_request \<noteq>
       redirect pair_URL (js ''/auth?error=auth_failed'') empty_code_request"
  by (simp add: GET_def redirect_def next_target_def truthy_def pair_URL_def
      rejecting_exchange_def empty_code_request_def js_def Let_def)

text \<open>
  The target is built inside the \<^verbatim>\<open>try\<close>: when the constructor refuses it, the
  \<^verbatim>\<open>catch\<close> answers as if the exchange had failed.
\<close>

lemma unresolvable_next_reported_as_auth_failed:
  "GET pair_URL resolving_exchange hostless_next_request =
     Redirect (js ''/auth?error=auth_failed'', Some (js ''https://app.example/auth/callback?code=abc&next=https://''))"
  by (simp add: GET_def redirect_def next_target_def truthy_def pair_URL_def
      resolving_exchange_def hostless_next_request_def js_def Let_def)

end
